theory Spec2Isabelle
  imports Main
begin

section \<open>JavaScript values of the variant resolver\<close>

text \<open>
  The resolver of \<^verbatim>\<open>lib/variants\<close> works on plain objects whose leaves are strings,
  numbers and booleans. An object is the association list of its own enumerable
  properties in the order a \<^verbatim>\<open>for ... in\<close> loop visits them (integer-like keys first,
  then the other keys in insertion order), so its keys are pairwise distinct. Numbers are
  the integers that \<^verbatim>\<open>String\<close> prints in plain decimal (no \<^verbatim>\<open>NaN\<close>, no fractions, no
  exponent notation); arrays and functions are outside the declared
  types of a configuration and are not modelled. A property read \<^verbatim>\<open>o[k]\<close> is a read of an
  own property: keys are assumed not to name a member of \<^verbatim>\<open>Object.prototype\<close>.
\<close>

datatype jsval =
    Undefined
  | Null
  | Bool bool
  | Num int
  | Str string
  | Obj "(string \<times> jsval) list"

type_synonym jsobj = "(string \<times> jsval) list"

datatype jstype = TUndefined | TObject | TBoolean | TNumber | TString

fun typeof :: "jsval \<Rightarrow> jstype" where
  "typeof Undefined = TUndefined"
| "typeof Null = TObject"
| "typeof (Bool b) = TBoolean"
| "typeof (Num n) = TNumber"
| "typeof (Str s) = TString"
| "typeof (Obj kvs) = TObject"

text \<open>Truthiness, as \<^verbatim>\<open>if (v)\<close> and \<^verbatim>\<open>!v\<close> test it.\<close>

fun truthy :: "jsval \<Rightarrow> bool" where
  "truthy Undefined = False"
| "truthy Null = False"
| "truthy (Bool b) = b"
| "truthy (Num n) = (n \<noteq> 0)"
| "truthy (Str s) = (s \<noteq> [])"
| "truthy (Obj kvs) = True"

text \<open>
  Strict equality \<^verbatim>\<open>===\<close>. Primitives are compared by value. Two objects are equal only
  when they are the same reference; the objects of a configuration and of a props object
  are separate allocations, so an object is never strictly equal to anything here.
\<close>

fun strictEq :: "jsval \<Rightarrow> jsval \<Rightarrow> bool" where
  "strictEq (Obj a) w = False"
| "strictEq v (Obj b) = False"
| "strictEq v w = (v = w)"

text \<open>\<^verbatim>\<open>a ?? b\<close>: the right operand when the left one is \<^verbatim>\<open>undefined\<close> or \<^verbatim>\<open>null\<close>.\<close>

definition coalesce :: "jsval \<Rightarrow> jsval \<Rightarrow> jsval" where
  "coalesce a b = (if a = Undefined \<or> a = Null then b else a)"

text \<open>\<^verbatim>\<open>obj[key]\<close>: a missing property reads as \<^verbatim>\<open>undefined\<close>.\<close>

definition getProp :: "jsobj \<Rightarrow> string \<Rightarrow> jsval" where
  "getProp obj key = (case map_of obj key of None \<Rightarrow> Undefined | Some v \<Rightarrow> v)"

text \<open>\<^verbatim>\<open>key in obj\<close>.\<close>

definition hasKey :: "jsobj \<Rightarrow> string \<Rightarrow> bool" where
  "hasKey obj key = (map_of obj key \<noteq> None)"

text \<open>\<^verbatim>\<open>String(v)\<close>; an integer prints in decimal.\<close>

fun digitsOf :: "nat \<Rightarrow> string" where
  "digitsOf n =
     (if n < 10 then [char_of (48 + n)]
      else digitsOf (n div 10) @ [char_of (48 + n mod 10)])"

declare digitsOf.simps [simp del]

fun toStr :: "jsval \<Rightarrow> string" where
  "toStr Undefined = ''undefined''"
| "toStr Null = ''null''"
| "toStr (Bool b) = (if b then ''true'' else ''false'')"
| "toStr (Num n) = (if n < 0 then CHR ''-'' # digitsOf (nat (- n)) else digitsOf (nat n))"
| "toStr (Str s) = s"
| "toStr (Obj kvs) = ''[object Object]''"

section \<open>The class-name joiner\<close>

text \<open>
  Modelled from the spec: the module \<^verbatim>\<open>lib/cn\<close> that exports \<^verbatim>\<open>cn\<close> is not among the
  sources, so the functions of this section follow the specification. It describes
  \<^verbatim>\<open>cn\<close> as the class-name joiner that ``merges/deduplicates space-separated class
  tokens''. Accordingly \<open>cn\<close> splits each string argument at spaces, concatenates the
  tokens in argument order, keeps the first occurrence of every token and joins the
  result with single spaces. An argument that is not a string carries no token: the
  callers pass the \<^verbatim>\<open>undefined\<close> of an omitted \<^verbatim>\<open>className\<close> and the \<^verbatim>\<open>false\<close> of
  \<^verbatim>\<open>disabled && '...'\<close>.
\<close>

fun splitSpaces :: "string \<Rightarrow> string \<Rightarrow> string list" where
  "splitSpaces cur [] = (if cur = [] then [] else [cur])"
| "splitSpaces cur (c # cs) =
     (if c = CHR '' '' then (if cur = [] then splitSpaces [] cs else cur # splitSpaces [] cs)
      else splitSpaces (cur @ [c]) cs)"

definition tokens :: "string \<Rightarrow> string list" where
  "tokens s = splitSpaces [] s"

fun classTokens :: "jsval \<Rightarrow> string list" where
  "classTokens (Str s) = tokens s"
| "classTokens v = []"

fun dedupe :: "string list \<Rightarrow> string list" where
  "dedupe [] = []"
| "dedupe (t # ts) = t # filter (\<lambda>u. u \<noteq> t) (dedupe ts)"

fun joinSpaces :: "string list \<Rightarrow> string" where
  "joinSpaces [] = []"
| "joinSpaces [t] = t"
| "joinSpaces (t # u # ts) = t @ CHR '' '' # joinSpaces (u # ts)"

text \<open>
  Modelled from the spec: \<open>cn\<close>, the export of the missing module \<^verbatim>\<open>lib/cn\<close>, merges the
  class tokens of its arguments and deduplicates them.
\<close>

definition cn :: "jsval list \<Rightarrow> string" where
  "cn inputs = joinSpaces (dedupe (concat (map classTokens inputs)))"

text \<open>
  The resolver below takes the joiner as its first argument, so that what is proved of
  the resolver alone holds for every joiner, and what needs the joiner's behaviour is
  stated for \<open>cn\<close>.
\<close>

type_synonym joiner = "jsval list \<Rightarrow> string"

section \<open>Configurations\<close>

text \<open>
  \<^verbatim>\<open>VariantConfig\<close> and \<^verbatim>\<open>SlotsConfig\<close> in one record, as \<^verbatim>\<open>createVariant(config: any)\<close>
  receives them. A field that is missing or \<^verbatim>\<open>undefined\<close> is \<open>None\<close>.
  \<^verbatim>\<open>Variants = Record<string, VariantDefinition>\<close>: every axis maps to an object whose
  keys are the axis's values; a variant value is a class string in regular mode and an
  object from slot names to class strings in slots mode.
\<close>

record config =
  slots :: "(string \<times> string) list option"
  base :: "string option"
  variants :: "(string \<times> jsobj) list option"
  compoundVariants :: "jsobj list option"
  defaultVariants :: "jsobj option"

section \<open>Compound variants\<close>

text \<open>
  \<^verbatim>\<open>matchesCompoundVariant\<close>: the \<^verbatim>\<open>for (const key in compound)\<close> loop, every
  \<^verbatim>\<open>continue\<close> a recursive call and every \<^verbatim>\<open>return false\<close> the value \<open>False\<close>.
\<close>

fun matchesKeys :: "jsobj \<Rightarrow> jsobj \<Rightarrow> jsobj \<Rightarrow> string list \<Rightarrow> bool" where
  "matchesKeys props compound defaults [] = True"
| "matchesKeys props compound defaults (key # keys) =
     (if key = ''class'' then matchesKeys props compound defaults keys
      else
        let propValue = coalesce (getProp props key) (getProp defaults key);
            compoundValue = getProp compound key
        in
          if compoundValue = Undefined then matchesKeys props compound defaults keys
          else if typeof compoundValue = TBoolean then
            (if compoundValue = Bool False then
               (if propValue \<noteq> Bool False then False
                else matchesKeys props compound defaults keys)
             else
               (if \<not> truthy propValue then False
                else matchesKeys props compound defaults keys))
          else if \<not> strictEq propValue compoundValue then False
          else matchesKeys props compound defaults keys)"

definition matchesCompoundVariant :: "jsobj \<Rightarrow> jsobj \<Rightarrow> jsobj \<Rightarrow> bool" where
  "matchesCompoundVariant props compound defaults =
     matchesKeys props compound defaults (map fst compound)"

section \<open>Regular mode\<close>

text \<open>
  The body of the loop over the variant axes in \<^verbatim>\<open>resolveVariantClasses\<close>: it returns
  the array \<^verbatim>\<open>classes\<close> after one iteration (a \<^verbatim>\<open>continue\<close> returns it unchanged). The
  guard \<^verbatim>\<open>if (!variantDef) continue\<close> is the \<open>None\<close> branch of the lookup.
\<close>

definition variantStep ::
  "jsobj \<Rightarrow> (string \<times> jsobj) list \<Rightarrow> jsobj \<Rightarrow> string \<Rightarrow> jsval list \<Rightarrow> jsval list" where
  "variantStep props variants' defaults variantKey classes =
     (let propValue = coalesce (getProp props variantKey) (getProp defaults variantKey) in
      if propValue = Undefined \<or> propValue = Null then classes
      else case map_of variants' variantKey of
        None \<Rightarrow> classes
      | Some variantDef \<Rightarrow>
          (let stringKey = (if truthy propValue then ''true'' else ''false'') in
           if typeof propValue = TBoolean \<and> \<not> hasKey variantDef stringKey then classes
           else
             let propValue' = (if typeof propValue = TBoolean then Str stringKey else propValue);
                 variantValue = getProp variantDef (toStr propValue')
             in
               if truthy variantValue then
                 (if typeof variantValue = TString then classes @ [variantValue]
                  else classes)
               else classes))"

fun variantsLoop ::
  "jsobj \<Rightarrow> (string \<times> jsobj) list \<Rightarrow> jsobj \<Rightarrow> string list \<Rightarrow> jsval list \<Rightarrow> jsval list" where
  "variantsLoop props variants' defaults [] classes = classes"
| "variantsLoop props variants' defaults (variantKey # keys) classes =
     variantsLoop props variants' defaults keys
       (variantStep props variants' defaults variantKey classes)"

text \<open>The body of the loop over the compound variants.\<close>

definition compoundStep :: "jsobj \<Rightarrow> jsobj \<Rightarrow> jsobj \<Rightarrow> jsval list \<Rightarrow> jsval list" where
  "compoundStep props defaults compound classes =
     (if matchesCompoundVariant props compound defaults then
        (if truthy (getProp compound ''class'') \<and> typeof (getProp compound ''class'') = TString
         then classes @ [getProp compound ''class'']
         else classes)
      else classes)"

fun compoundLoop :: "jsobj \<Rightarrow> jsobj \<Rightarrow> jsobj list \<Rightarrow> jsval list \<Rightarrow> jsval list" where
  "compoundLoop props defaults [] classes = classes"
| "compoundLoop props defaults (compound # rest) classes =
     compoundLoop props defaults rest (compoundStep props defaults compound classes)"

definition resolveVariantClasses ::
  "joiner \<Rightarrow> jsobj \<Rightarrow> (string \<times> jsobj) list \<Rightarrow> jsobj list \<Rightarrow> jsobj \<Rightarrow> string" where
  "resolveVariantClasses cnf props variants' compoundVariants' defaults =
     cnf (compoundLoop props defaults compoundVariants'
            (variantsLoop props variants' defaults (map fst variants') []))"

text \<open>
  \<^verbatim>\<open>createVariantRegular(config)(props)\<close>. The destructuring defaults of the
  configuration and the default \<^verbatim>\<open>props = {}\<close> are the \<open>None\<close> cases;
  \<^verbatim>\<open>const { className, ...variantProps } = props\<close> takes \<^verbatim>\<open>className\<close> out of the props.
\<close>

definition createVariantRegular :: "joiner \<Rightarrow> config \<Rightarrow> jsobj option \<Rightarrow> string" where
  "createVariantRegular cnf cfg propsArg =
     (let base' = (case base cfg of None \<Rightarrow> [] | Some b \<Rightarrow> b);
          variants' = (case variants cfg of None \<Rightarrow> [] | Some v \<Rightarrow> v);
          compoundVariants' = (case compoundVariants cfg of None \<Rightarrow> [] | Some c \<Rightarrow> c);
          defaultVariants' = (case defaultVariants cfg of None \<Rightarrow> [] | Some d \<Rightarrow> d);
          props = (case propsArg of None \<Rightarrow> [] | Some p \<Rightarrow> p);
          className = getProp props ''className'';
          variantProps = filter (\<lambda>kv. fst kv \<noteq> ''className'') props;
          variantClasses =
            resolveVariantClasses cnf variantProps variants' compoundVariants' defaultVariants'
      in cnf [Str base', Str variantClasses, className])"

section \<open>Slots mode\<close>

text \<open>The body of the loop over the variant axes in \<^verbatim>\<open>resolveSlotsVariantClasses\<close>.\<close>

definition slotVariantStep ::
  "string \<Rightarrow> jsobj \<Rightarrow> (string \<times> jsobj) list \<Rightarrow> jsobj \<Rightarrow> string \<Rightarrow> jsval list \<Rightarrow> jsval list" where
  "slotVariantStep slotName props slotsVariants defaults variantKey classes =
     (let propValue = coalesce (getProp props variantKey) (getProp defaults variantKey) in
      if propValue = Undefined \<or> propValue = Null then classes
      else case map_of slotsVariants variantKey of
        None \<Rightarrow> classes
      | Some variantDef \<Rightarrow>
          (let stringKey = (if truthy propValue then ''true'' else ''false'') in
           if typeof propValue = TBoolean \<and> \<not> hasKey variantDef stringKey then classes
           else
             let propValue' = (if typeof propValue = TBoolean then Str stringKey else propValue);
                 variantValue = getProp variantDef (toStr propValue')
             in
               case variantValue of
                 Obj slotClasses \<Rightarrow>
                   (let slotVariant = getProp slotClasses slotName in
                    if truthy slotVariant \<and> typeof slotVariant = TString
                    then classes @ [slotVariant]
                    else classes)
               | _ \<Rightarrow> classes))"

fun slotVariantsLoop ::
  "string \<Rightarrow> jsobj \<Rightarrow> (string \<times> jsobj) list \<Rightarrow> jsobj \<Rightarrow> string list \<Rightarrow> jsval list
   \<Rightarrow> jsval list" where
  "slotVariantsLoop slotName props slotsVariants defaults [] classes = classes"
| "slotVariantsLoop slotName props slotsVariants defaults (variantKey # keys) classes =
     slotVariantsLoop slotName props slotsVariants defaults keys
       (slotVariantStep slotName props slotsVariants defaults variantKey classes)"

text \<open>The body of the loop over the compound variants, for one slot.\<close>

definition slotCompoundStep ::
  "string \<Rightarrow> jsobj \<Rightarrow> jsobj \<Rightarrow> jsobj \<Rightarrow> jsval list \<Rightarrow> jsval list" where
  "slotCompoundStep slotName props defaults compound classes =
     (if matchesCompoundVariant props compound defaults then
        (if truthy (getProp compound ''class'') then
           (if typeof (getProp compound ''class'') = TString
            then classes @ [getProp compound ''class'']
            else case getProp compound ''class'' of
              Obj slotClasses \<Rightarrow>
                (if truthy (getProp slotClasses slotName)
                 then classes @ [getProp slotClasses slotName]
                 else classes)
            | _ \<Rightarrow> classes)
         else classes)
      else classes)"

fun slotCompoundLoop ::
  "string \<Rightarrow> jsobj \<Rightarrow> jsobj \<Rightarrow> jsobj list \<Rightarrow> jsval list \<Rightarrow> jsval list" where
  "slotCompoundLoop slotName props defaults [] classes = classes"
| "slotCompoundLoop slotName props defaults (compound # rest) classes =
     slotCompoundLoop slotName props defaults rest
       (slotCompoundStep slotName props defaults compound classes)"

definition resolveSlotsVariantClasses ::
  "joiner \<Rightarrow> string \<Rightarrow> jsobj \<Rightarrow> (string \<times> jsobj) list option \<Rightarrow> jsobj list \<Rightarrow> jsobj
   \<Rightarrow> string" where
  "resolveSlotsVariantClasses cnf slotName props slotsVariants compoundVariants' defaults =
     cnf (slotCompoundLoop slotName props defaults compoundVariants'
            (case slotsVariants of
               None \<Rightarrow> []
             | Some sv \<Rightarrow> slotVariantsLoop slotName props sv defaults (map fst sv) []))"

text \<open>
  \<^verbatim>\<open>createVariantSlots(config)(props)\<close>: the record of slot resolvers, one entry per
  slot in the order of the slots; a resolver takes the optional \<^verbatim>\<open>slotProps\<close>.
\<close>

type_synonym slotResolver = "jsobj option \<Rightarrow> string"

definition createVariantSlots ::
  "joiner \<Rightarrow> config \<Rightarrow> jsobj option \<Rightarrow> (string \<times> slotResolver) list" where
  "createVariantSlots cnf cfg propsArg =
     (let slots' = (case slots cfg of None \<Rightarrow> [] | Some s \<Rightarrow> s);
          variants' = (case variants cfg of None \<Rightarrow> [] | Some v \<Rightarrow> v);
          compoundVariants' = (case compoundVariants cfg of None \<Rightarrow> [] | Some c \<Rightarrow> c);
          defaultVariants' = (case defaultVariants cfg of None \<Rightarrow> [] | Some d \<Rightarrow> d);
          props = (case propsArg of None \<Rightarrow> [] | Some p \<Rightarrow> p)
      in map (\<lambda>slotName.
            (slotName,
             \<lambda>slotProps.
               cnf [case map_of slots' slotName of None \<Rightarrow> Undefined | Some b \<Rightarrow> Str b,
                    Str (resolveSlotsVariantClasses cnf slotName props (Some variants')
                           compoundVariants' defaultVariants'),
                    case slotProps of None \<Rightarrow> Undefined | Some sp \<Rightarrow> getProp sp ''className'']))
          (map fst slots'))"

section \<open>The entry point\<close>

datatype variantFn =
    RegularFn "jsobj option \<Rightarrow> string"
  | SlotsFn "jsobj option \<Rightarrow> (string \<times> slotResolver) list"

text \<open>\<^verbatim>\<open>'slots' in config && config.slots !== undefined\<close> is \<open>slots cfg \<noteq> None\<close>.\<close>

definition createVariant :: "joiner \<Rightarrow> config \<Rightarrow> variantFn" where
  "createVariant cnf cfg =
     (if slots cfg \<noteq> None then SlotsFn (createVariantSlots cnf cfg)
      else RegularFn (createVariantRegular cnf cfg))"

section \<open>What the sentences of the specification say\<close>

text \<open>
  The definitions of this section follow the wording of the specification, not the code:
  the theorems below compare the code with them.
\<close>

text \<open>A class token: a non-empty string without a space.\<close>

definition isToken :: "string \<Rightarrow> bool" where
  "isToken t = (t \<noteq> [] \<and> CHR '' '' \<notin> set t)"

text \<open>
  The resolved value of an axis: the value the props supply, falling back to the default
  when the props omit the axis or supply \<^verbatim>\<open>undefined\<close> or \<^verbatim>\<open>null\<close>.
\<close>

definition resolvedValue :: "jsobj \<Rightarrow> jsobj \<Rightarrow> string \<Rightarrow> jsval" where
  "resolvedValue props defaults axis =
     (if getProp props axis = Undefined \<or> getProp props axis = Null
      then getProp defaults axis else getProp props axis)"

text \<open>The class string a configured value stands for: a non-empty string, else nothing.\<close>

definition classString :: "jsval \<Rightarrow> jsval list" where
  "classString v = (case v of Str s \<Rightarrow> (if s = [] then [] else [Str s]) | _ \<Rightarrow> [])"

text \<open>
  Regular mode: the class string configured for the resolved value of an axis; nothing
  when the resolved value is absent, or is not a key of the axis's definition.
\<close>

definition axisClass :: "jsobj \<Rightarrow> jsobj \<Rightarrow> (string \<times> jsobj) list \<Rightarrow> string \<Rightarrow> jsval list" where
  "axisClass props defaults variants' axis =
     (case map_of variants' axis of
        None \<Rightarrow> []
      | Some variantDef \<Rightarrow>
          (if resolvedValue props defaults axis = Undefined
              \<or> resolvedValue props defaults axis = Null then []
           else classString (getProp variantDef (toStr (resolvedValue props defaults axis)))))"

text \<open>The class of each matching compound variant, in the order of the configuration.\<close>

definition compoundClasses :: "jsobj \<Rightarrow> jsobj \<Rightarrow> jsobj list \<Rightarrow> jsval list" where
  "compoundClasses props defaults compoundVariants' =
     concat (map (\<lambda>compound. classString (getProp compound ''class''))
       (filter (\<lambda>compound. matchesCompoundVariant props compound defaults) compoundVariants'))"

text \<open>Slots mode: the same for one slot.\<close>

definition slotAxisClass ::
  "string \<Rightarrow> jsobj \<Rightarrow> jsobj \<Rightarrow> (string \<times> jsobj) list \<Rightarrow> string \<Rightarrow> jsval list" where
  "slotAxisClass slotName props defaults slotsVariants axis =
     (case map_of slotsVariants axis of
        None \<Rightarrow> []
      | Some variantDef \<Rightarrow>
          (if resolvedValue props defaults axis = Undefined
              \<or> resolvedValue props defaults axis = Null then []
           else case getProp variantDef (toStr (resolvedValue props defaults axis)) of
             Obj slotClasses \<Rightarrow> classString (getProp slotClasses slotName)
           | _ \<Rightarrow> []))"

definition slotCompoundClass :: "string \<Rightarrow> jsobj \<Rightarrow> jsval list" where
  "slotCompoundClass slotName compound =
     (case getProp compound ''class'' of
        Str s \<Rightarrow> classString (Str s)
      | Obj slotClasses \<Rightarrow>
          (if truthy (getProp slotClasses slotName) then [getProp slotClasses slotName] else [])
      | _ \<Rightarrow> [])"

definition slotCompoundClasses :: "string \<Rightarrow> jsobj \<Rightarrow> jsobj \<Rightarrow> jsobj list \<Rightarrow> jsval list" where
  "slotCompoundClasses slotName props defaults compoundVariants' =
     concat (map (slotCompoundClass slotName)
       (filter (\<lambda>compound. matchesCompoundVariant props compound defaults) compoundVariants'))"

text \<open>
  The parts of a configuration and of the arguments, with the defaults the destructuring
  patterns give them: an empty base, no axes, no compound variants, no defaults, an empty
  props object.
\<close>

definition baseOf :: "config \<Rightarrow> string" where
  "baseOf cfg = (case base cfg of None \<Rightarrow> [] | Some b \<Rightarrow> b)"

definition variantsOf :: "config \<Rightarrow> (string \<times> jsobj) list" where
  "variantsOf cfg = (case variants cfg of None \<Rightarrow> [] | Some v \<Rightarrow> v)"

definition compoundsOf :: "config \<Rightarrow> jsobj list" where
  "compoundsOf cfg = (case compoundVariants cfg of None \<Rightarrow> [] | Some c \<Rightarrow> c)"

definition defaultsOf :: "config \<Rightarrow> jsobj" where
  "defaultsOf cfg = (case defaultVariants cfg of None \<Rightarrow> [] | Some d \<Rightarrow> d)"

definition propsOf :: "jsobj option \<Rightarrow> jsobj" where
  "propsOf propsArg = (case propsArg of None \<Rightarrow> [] | Some p \<Rightarrow> p)"

text \<open>The caller-supplied \<^verbatim>\<open>className\<close>, and the props without it.\<close>

definition classNameOf :: "jsobj option \<Rightarrow> jsval" where
  "classNameOf propsArg = getProp (propsOf propsArg) ''className''"

definition variantPropsOf :: "jsobj option \<Rightarrow> jsobj" where
  "variantPropsOf propsArg = filter (\<lambda>kv. fst kv \<noteq> ''className'') (propsOf propsArg)"

text \<open>
  Regular mode, in the order of the specification: for each declared axis the class
  string configured for its resolved value, then the class of each matching compound
  variant.
\<close>

definition regularClasses :: "config \<Rightarrow> jsobj option \<Rightarrow> jsval list" where
  "regularClasses cfg propsArg =
     concat (map (axisClass (variantPropsOf propsArg) (defaultsOf cfg) (variantsOf cfg))
               (map fst (variantsOf cfg)))
     @ compoundClasses (variantPropsOf propsArg) (defaultsOf cfg) (compoundsOf cfg)"

text \<open>Slots mode: the classes the shared props select for one slot.\<close>

definition slotClasses :: "string \<Rightarrow> config \<Rightarrow> jsobj option \<Rightarrow> jsval list" where
  "slotClasses slotName cfg propsArg =
     concat (map (slotAxisClass slotName (propsOf propsArg) (defaultsOf cfg) (variantsOf cfg))
               (map fst (variantsOf cfg)))
     @ slotCompoundClasses slotName (propsOf propsArg) (defaultsOf cfg) (compoundsOf cfg)"

text \<open>The \<^verbatim>\<open>className\<close> handed to a slot resolver: \<^verbatim>\<open>slotProps?.className\<close>.\<close>

definition slotClassNameOf :: "jsobj option \<Rightarrow> jsval" where
  "slotClassNameOf slotProps =
     (case slotProps of None \<Rightarrow> Undefined | Some sp \<Rightarrow> getProp sp ''className'')"

text \<open>\<^verbatim>\<open>createVariant(config)(props)[slotName]\<close>: the resolver the returned record holds for a slot.\<close>

definition slotResolverOf :: "joiner \<Rightarrow> config \<Rightarrow> jsobj option \<Rightarrow> string \<Rightarrow> slotResolver option" where
  "slotResolverOf cnf cfg propsArg slotName =
     (case createVariant cnf cfg of
        SlotsFn F \<Rightarrow> map_of (F propsArg) slotName
      | RegularFn f \<Rightarrow> None)"

text \<open>
  A condition of a compound variant holds for a resolved value: a condition \<^verbatim>\<open>true\<close> for
  any truthy value, a condition \<^verbatim>\<open>false\<close> for the value \<^verbatim>\<open>false\<close> only, any other
  condition for the strictly equal value.
\<close>

definition conditionHolds :: "jsval \<Rightarrow> jsval \<Rightarrow> bool" where
  "conditionHolds propValue condition =
     (case condition of
        Bool b \<Rightarrow> (if b then truthy propValue else propValue = Bool False)
      | _ \<Rightarrow> strictEq propValue condition)"

text \<open>
  The axis conditions a compound variant lists: its keys other than \<^verbatim>\<open>class\<close> whose value
  is not \<^verbatim>\<open>undefined\<close>. Every one of them must hold for the resolved value of its axis.
\<close>

definition listedConditions :: "jsobj \<Rightarrow> string list" where
  "listedConditions compound =
     filter (\<lambda>key. key \<noteq> ''class'' \<and> getProp compound key \<noteq> Undefined) (map fst compound)"

definition allConditionsHold :: "jsobj \<Rightarrow> jsobj \<Rightarrow> jsobj \<Rightarrow> bool" where
  "allConditionsHold props compound defaults =
     list_all (\<lambda>key. conditionHolds (resolvedValue props defaults key) (getProp compound key))
       (listedConditions compound)"

text \<open>
  The class a definition of an axis configures for a value: nothing for \<^verbatim>\<open>undefined\<close> and
  \<^verbatim>\<open>null\<close>, else the class string under the key the value prints as; in slots mode the
  class string of the slot in the object under that key.
\<close>

definition classForValue :: "jsobj \<Rightarrow> jsval \<Rightarrow> jsval list" where
  "classForValue variantDef v =
     (if v = Undefined \<or> v = Null then []
      else classString (getProp variantDef (toStr v)))"

definition slotClassForValue :: "string \<Rightarrow> jsobj \<Rightarrow> jsval \<Rightarrow> jsval list" where
  "slotClassForValue slotName variantDef v =
     (if v = Undefined \<or> v = Null then []
      else case getProp variantDef (toStr v) of
        Obj perSlot \<Rightarrow> classString (getProp perSlot slotName)
      | _ \<Rightarrow> [])"

section \<open>Example configurations\<close>

text \<open>
  A button in regular mode and a modal in slots mode, after the examples in the
  documentation comments of \<^verbatim>\<open>createVariant\<close>, with shortened class strings.
\<close>

definition buttonConfig :: config where
  "buttonConfig = \<lparr> slots = None, base = Some ''px-4 py-2'',
     variants = Some [(''variant'', [(''primary'', Str ''bg-blue''), (''secondary'', Str ''bg-gray'')]),
                      (''size'', [(''sm'', Str ''text-sm''), (''lg'', Str ''text-lg'')]),
                      (''disabled'', [(''true'', Str ''opacity-50'')])],
     compoundVariants = Some [[(''variant'', Str ''primary''), (''size'', Str ''lg''),
                               (''class'', Str ''shadow-lg'')],
                              [(''disabled'', Bool False), (''variant'', Str ''secondary''),
                               (''class'', Str ''hover:bg'')]],
     defaultVariants = Some [(''variant'', Str ''primary''), (''size'', Str ''sm'')] \<rparr>"

definition modalConfig :: config where
  "modalConfig = \<lparr> slots = Some [(''root'', ''fixed inset-0''), (''panel'', ''bg-white rounded'')],
     base = None,
     variants = Some [(''size'', [(''sm'', Obj [(''panel'', Str ''max-w-sm'')]),
                                  (''md'', Obj [(''panel'', Str ''max-w-md'')])])],
     compoundVariants = Some [[(''size'', Str ''md''), (''class'', Obj [(''root'', Str ''p-4'')])],
                              [(''size'', Str ''md''), (''class'', Str ''shadow'')]],
     defaultVariants = None \<rparr>"

text \<open>
  Boolean axes with only the key \<^verbatim>\<open>true\<close> and with both keys, and two compound variants,
  after the checkbox, tab and switch examples of the same comments.
\<close>

definition tabVariants :: "(string \<times> jsobj) list" where
  "tabVariants =
     [(''disabled'', [(''true'', Str ''opacity-50'')]),
      (''selected'', [(''true'', Str ''bg-blue''), (''false'', Str ''bg-gray'')])]"

definition tabSlotsVariants :: "(string \<times> jsobj) list" where
  "tabSlotsVariants =
     [(''disabled'', [(''true'', Obj [(''panel'', Str ''opacity-50'')])]),
      (''selected'', [(''true'', Obj [(''panel'', Str ''bg-blue'')]),
                      (''false'', Obj [(''panel'', Str ''bg-gray'')])])]"

definition largePrimary :: jsobj where
  "largePrimary = [(''variant'', Str ''primary''), (''size'', Str ''lg''), (''class'', Str ''shadow-lg'')]"

definition enabledOutline :: jsobj where
  "enabledOutline = [(''disabled'', Bool False), (''variant'', Str ''outline''), (''class'', Str ''hover:bg'')]"

text \<open>A size axis in regular mode and in slots mode, and a compound variant on it.\<close>

definition sizeVariants :: "(string \<times> jsobj) list" where
  "sizeVariants = [(''size'', [(''sm'', Str ''text-sm''), (''md'', Str ''text-md'')])]"

definition sizeSlotsVariants :: "(string \<times> jsobj) list" where
  "sizeSlotsVariants =
     [(''size'', [(''sm'', Obj [(''panel'', Str ''max-w-sm'')]),
                  (''md'', Obj [(''panel'', Str ''max-w-md'')])])]"

definition mediumShadow :: jsobj where
  "mediumShadow = [(''size'', Str ''md''), (''class'', Str ''shadow'')]"

section \<open>The joiner: tokens survive, once each\<close>

lemma splitSpaces_isToken:
  "CHR '' '' \<notin> set cur \<Longrightarrow> t \<in> set (splitSpaces cur s) \<Longrightarrow> isToken t"
  by (induction cur s rule: splitSpaces.induct) (auto simp: isToken_def split: if_splits)

lemma tokens_isToken: "t \<in> set (tokens s) \<Longrightarrow> isToken t"
  unfolding tokens_def using splitSpaces_isToken [of "[]"] by simp

lemma splitSpaces_token_prefix:
  "CHR '' '' \<notin> set t \<Longrightarrow> splitSpaces cur (t @ s) = splitSpaces (cur @ t) s"
  by (induction t arbitrary: cur) auto

lemma splitSpaces_one: "isToken t \<Longrightarrow> splitSpaces [] t = [t]"
  using splitSpaces_token_prefix [of t "[]" "[]"] by (simp add: isToken_def)

lemma splitSpaces_next:
  "isToken t \<Longrightarrow> splitSpaces [] (t @ CHR '' '' # s) = t # splitSpaces [] s"
  using splitSpaces_token_prefix [of t "[]" "CHR '' '' # s"] by (simp add: isToken_def)

lemma tokens_joinSpaces: "\<forall>t\<in>set ts. isToken t \<Longrightarrow> tokens (joinSpaces ts) = ts"
  unfolding tokens_def
  by (induction ts rule: joinSpaces.induct) (simp_all add: splitSpaces_one splitSpaces_next)

lemma set_dedupe: "set (dedupe ts) = set ts"
  by (induction ts) auto

lemma distinct_dedupe: "distinct (dedupe ts)"
  by (induction ts) (auto simp: set_dedupe)

lemma dedupe_distinct: "distinct ts \<Longrightarrow> dedupe ts = ts"
  by (induction ts) (auto simp: filter_id_conv)

lemma dedupe_append:
  "dedupe (xs @ ys) = dedupe xs @ filter (\<lambda>u. u \<notin> set xs) (dedupe ys)"
  by (induction xs) (auto intro: filter_cong)

lemma dedupe_dedupe_append: "dedupe (dedupe ys @ zs) = dedupe (ys @ zs)"
  by (simp add: dedupe_append [of "dedupe ys"] dedupe_append [of ys] dedupe_distinct
      distinct_dedupe set_dedupe)

lemma dedupe_flatten: "dedupe (xs @ dedupe ys @ zs) = dedupe (xs @ ys @ zs)"
  by (simp add: dedupe_append [of xs] dedupe_dedupe_append)

lemma classTokens_isToken: "t \<in> set (classTokens v) \<Longrightarrow> isToken t"
  by (cases v) (auto dest: tokens_isToken)

lemma concat_classTokens_isToken:
  "t \<in> set (concat (map classTokens inputs)) \<Longrightarrow> isToken t"
  by (auto dest: classTokens_isToken)

lemma tokens_cn: "tokens (cn inputs) = dedupe (concat (map classTokens inputs))"
  unfolding cn_def
  by (rule tokens_joinSpaces) (auto simp: set_dedupe dest: concat_classTokens_isToken simp del: set_concat)

lemma cn_nested: "cn (xs @ Str (cn ys) # zs) = cn (xs @ ys @ zs)"
  by (simp add: cn_def tokens_cn [unfolded cn_def] dedupe_flatten)

text \<open>
  Claim C7. The joiner merges the space-separated class tokens of its arguments and
  deduplicates them: for every list of input class strings, the tokens of the output are
  exactly the tokens of the inputs, and no token occurs in the output more than once.
\<close>

theorem cn_merges_and_deduplicates:
  "set (tokens (cn (map Str inputs))) = (\<Union>s\<in>set inputs. set (tokens s))
   \<and> distinct (tokens (cn (map Str inputs)))"
  by (simp add: tokens_cn set_dedupe distinct_dedupe comp_def)

theorem cn_merges_and_deduplicates_witness:
  "set (tokens (cn (map Str [''px-4 py-2'', ''rounded px-4'']))) = {''px-4'', ''py-2'', ''rounded''}
   \<and> distinct (tokens (cn (map Str [''px-4 py-2'', ''rounded px-4''])))
   \<and> cn (map Str [''px-4 py-2'', ''rounded px-4'']) = ''px-4 py-2 rounded''"
  using cn_merges_and_deduplicates [of "[''px-4 py-2'', ''rounded px-4'']"]
  by (simp add: tokens_def cn_def insert_commute)

section \<open>The loops, as the lists they append\<close>

lemma getProp_absent: "\<not> hasKey obj key \<Longrightarrow> getProp obj key = Undefined"
  by (simp add: hasKey_def getProp_def)

lemma coalesce_resolved:
  "coalesce (getProp props key) (getProp defaults key) = resolvedValue props defaults key"
  by (simp add: coalesce_def resolvedValue_def)

lemma variantStep_axisClass:
  "variantStep props vs defaults axis classes = classes @ axisClass props defaults vs axis"
proof (cases "map_of vs axis")
  case None
  then show ?thesis by (simp add: variantStep_def axisClass_def Let_def)
next
  case (Some d)
  show ?thesis
  proof (cases "resolvedValue props defaults axis")
    case (Bool b)
    then show ?thesis using Some
      by (cases "hasKey d (if b then ''true'' else ''false'')")
         (auto simp: variantStep_def axisClass_def Let_def coalesce_resolved classString_def
            getProp_absent split: jsval.splits)
  qed (use Some in \<open>auto simp: variantStep_def axisClass_def Let_def coalesce_resolved
         classString_def split: jsval.splits\<close>)
qed

lemma variantsLoop_axisClass:
  "variantsLoop props vs defaults keys classes
     = classes @ concat (map (axisClass props defaults vs) keys)"
  by (induction keys arbitrary: classes) (simp_all add: variantStep_axisClass)

lemma compoundStep_classString:
  "compoundStep props defaults c classes
     = classes @ (if matchesCompoundVariant props c defaults then classString (getProp c ''class'') else [])"
  by (auto simp: compoundStep_def classString_def split: jsval.splits)

lemma compoundLoop_compoundClasses:
  "compoundLoop props defaults cvs classes = classes @ compoundClasses props defaults cvs"
  by (induction cvs arbitrary: classes) (simp_all add: compoundStep_classString compoundClasses_def)

lemma slotVariantStep_slotAxisClass:
  "slotVariantStep slotName props sv defaults axis classes
     = classes @ slotAxisClass slotName props defaults sv axis"
proof (cases "map_of sv axis")
  case None
  then show ?thesis by (simp add: slotVariantStep_def slotAxisClass_def Let_def)
next
  case (Some d)
  show ?thesis
  proof (cases "resolvedValue props defaults axis")
    case (Bool b)
    then show ?thesis using Some
      by (cases "hasKey d (if b then ''true'' else ''false'')")
         (auto simp: slotVariantStep_def slotAxisClass_def Let_def coalesce_resolved
            classString_def getProp_absent split: jsval.splits)
  qed (use Some in \<open>auto simp: slotVariantStep_def slotAxisClass_def Let_def coalesce_resolved
         classString_def split: jsval.splits\<close>)
qed

lemma slotVariantsLoop_slotAxisClass:
  "slotVariantsLoop slotName props sv defaults keys classes
     = classes @ concat (map (slotAxisClass slotName props defaults sv) keys)"
  by (induction keys arbitrary: classes) (simp_all add: slotVariantStep_slotAxisClass)

lemma slotCompoundStep_slotCompoundClass:
  "slotCompoundStep slotName props defaults c classes
     = classes @ (if matchesCompoundVariant props c defaults
                  then slotCompoundClass slotName c else [])"
  by (auto simp: slotCompoundStep_def slotCompoundClass_def classString_def split: jsval.splits)

lemma slotCompoundLoop_slotCompoundClasses:
  "slotCompoundLoop slotName props defaults cvs classes
     = classes @ slotCompoundClasses slotName props defaults cvs"
  by (induction cvs arbitrary: classes)
     (simp_all add: slotCompoundStep_slotCompoundClass slotCompoundClasses_def)

lemma variantsLoop_append:
  "variantsLoop props vs defaults (pre @ post) classes
     = variantsLoop props vs defaults post (variantsLoop props vs defaults pre classes)"
  by (induction pre arbitrary: classes) simp_all

lemma slotVariantsLoop_append:
  "slotVariantsLoop slotName props vs defaults (pre @ post) classes
     = slotVariantsLoop slotName props vs defaults post
         (slotVariantsLoop slotName props vs defaults pre classes)"
  by (induction pre arbitrary: classes) simp_all

section \<open>The resolvers, as merges\<close>

lemma resolveVariantClasses_eq:
  "resolveVariantClasses cnf props vs cvs defaults
     = cnf (concat (map (axisClass props defaults vs) (map fst vs))
            @ compoundClasses props defaults cvs)"
  by (simp add: resolveVariantClasses_def variantsLoop_axisClass compoundLoop_compoundClasses)

lemma resolveSlotsVariantClasses_eq:
  "resolveSlotsVariantClasses cnf slotName props (Some sv) cvs defaults
     = cnf (concat (map (slotAxisClass slotName props defaults sv) (map fst sv))
            @ slotCompoundClasses slotName props defaults cvs)"
  by (simp add: resolveSlotsVariantClasses_def slotVariantsLoop_slotAxisClass
      slotCompoundLoop_slotCompoundClasses)

lemma createVariantRegular_eq:
  "createVariantRegular cnf cfg propsArg
     = cnf [Str (baseOf cfg), Str (cnf (regularClasses cfg propsArg)), classNameOf propsArg]"
  by (simp add: createVariantRegular_def Let_def resolveVariantClasses_eq regularClasses_def
      baseOf_def variantsOf_def compoundsOf_def defaultsOf_def propsOf_def classNameOf_def
      variantPropsOf_def)

lemma cn_flat: "cn [a, Str (cn ys), c] = cn (a # ys @ [c])"
  using cn_nested [of "[a]" ys "[c]"] by simp

text \<open>
  Claim C2. In regular mode the function returned by \<open>createVariant\<close> returns, for every
  configuration and every props object, the merge of the base classes, then for each
  declared variant axis the class string configured for the resolved value of that axis
  (an axis whose resolved value is absent from its definition contributes nothing), then
  the class of each matching compound variant, then the caller-supplied \<^verbatim>\<open>className\<close>.
  The axes are resolved from the props without \<^verbatim>\<open>className\<close>. The code merges in two
  steps, the variant and compound classes first and the result with base and
  \<^verbatim>\<open>className\<close> after; that holds for every joiner, and for \<open>cn\<close> the two steps are the
  one merge of the claim.
\<close>

theorem regular_mode_output:
  assumes "slots cfg = None"
  shows "(\<exists>f. createVariant cnf cfg = RegularFn f \<and>
            (\<forall>propsArg. f propsArg =
               cnf [Str (baseOf cfg), Str (cnf (regularClasses cfg propsArg)),
                    classNameOf propsArg]))
       \<and> (\<exists>g. createVariant cn cfg = RegularFn g \<and>
            (\<forall>propsArg. g propsArg =
               cn (Str (baseOf cfg) # regularClasses cfg propsArg @ [classNameOf propsArg])))"
  using assms by (simp add: createVariant_def createVariantRegular_eq cn_flat)

theorem regular_mode_output_witness:
  "slots buttonConfig = None
   \<and> (\<exists>g. createVariant cn buttonConfig = RegularFn g
        \<and> g (Some [(''size'', Str ''lg''), (''className'', Str ''mt-2 px-4'')])
            = ''px-4 py-2 bg-blue text-lg shadow-lg mt-2'')"
proof -
  have h: "slots buttonConfig = None" by (simp add: buttonConfig_def)
  from regular_mode_output [OF h, of cn] obtain g where
    g: "createVariant cn buttonConfig = RegularFn g"
       "\<forall>propsArg. g propsArg =
          cn (Str (baseOf buttonConfig) # regularClasses buttonConfig propsArg
              @ [classNameOf propsArg])"
    by blast
  have "g (Some [(''size'', Str ''lg''), (''className'', Str ''mt-2 px-4'')])
          = ''px-4 py-2 bg-blue text-lg shadow-lg mt-2''"
    unfolding g(2) [rule_format]
    by (simp add: buttonConfig_def baseOf_def regularClasses_def classNameOf_def propsOf_def
        variantPropsOf_def variantsOf_def defaultsOf_def compoundsOf_def axisClass_def
        compoundClasses_def resolvedValue_def getProp_def classString_def
        matchesCompoundVariant_def coalesce_def cn_def tokens_def)
  with h g(1) show ?thesis by blast
qed

section \<open>The two modes\<close>

lemma map_of_keyed:
  "map_of (map (\<lambda>k. (k, g k)) keys) s = (if s \<in> set keys then Some (g s) else None)"
  by (induction keys) auto

lemma key_of_binding: "map_of sl s = Some b \<Longrightarrow> s \<in> set (map fst sl)"
  by (induction sl) (auto split: if_splits)

lemma slotResolver_in_record:
  assumes "slots cfg = Some sl" and "map_of sl s = Some b"
  shows "map_of (createVariantSlots cnf cfg propsArg) s =
     Some (\<lambda>slotProps.
        cnf [Str b,
             Str (resolveSlotsVariantClasses cnf s (propsOf propsArg) (Some (variantsOf cfg))
                    (compoundsOf cfg) (defaultsOf cfg)),
             slotClassNameOf slotProps])"
proof -
  from assms(2) have "s \<in> set (map fst sl)"
    by (rule key_of_binding)
  then show ?thesis
    unfolding createVariantSlots_def Let_def map_of_keyed
    by (simp add: assms propsOf_def variantsOf_def compoundsOf_def defaultsOf_def
        slotClassNameOf_def)
qed

text \<open>
  Claim C1. \<open>createVariant\<close> has exactly two modes, selected by the shape of the
  configuration. Without a defined \<^verbatim>\<open>slots\<close> field the returned function maps a props
  object to a single class string (that of \<open>createVariantRegular\<close>). With one, the
  returned function maps a props object to a record with exactly the declared slot names,
  each bound to a resolver that produces that slot's class string; every resolver of the
  record resolves against the same props.
\<close>

theorem createVariant_two_modes:
  "(slots cfg = None \<longrightarrow> createVariant cnf cfg = RegularFn (createVariantRegular cnf cfg))
   \<and> (\<forall>sl. slots cfg = Some sl \<longrightarrow>
        (\<exists>F. createVariant cnf cfg = SlotsFn F \<and>
          (\<forall>propsArg. map fst (F propsArg) = map fst sl \<and>
            (\<forall>s\<in>set (map fst sl). \<exists>r b. map_of (F propsArg) s = Some r \<and> map_of sl s = Some b \<and>
               (\<forall>slotProps. r slotProps =
                  cnf [Str b,
                       Str (resolveSlotsVariantClasses cnf s (propsOf propsArg)
                              (Some (variantsOf cfg)) (compoundsOf cfg) (defaultsOf cfg)),
                       slotClassNameOf slotProps])))))"
proof (intro conjI allI impI)
  assume "slots cfg = None"
  then show "createVariant cnf cfg = RegularFn (createVariantRegular cnf cfg)"
    by (simp add: createVariant_def)
next
  fix sl assume sl: "slots cfg = Some sl"
  show "\<exists>F. createVariant cnf cfg = SlotsFn F \<and>
          (\<forall>propsArg. map fst (F propsArg) = map fst sl \<and>
            (\<forall>s\<in>set (map fst sl). \<exists>r b. map_of (F propsArg) s = Some r \<and> map_of sl s = Some b \<and>
               (\<forall>slotProps. r slotProps =
                  cnf [Str b,
                       Str (resolveSlotsVariantClasses cnf s (propsOf propsArg)
                              (Some (variantsOf cfg)) (compoundsOf cfg) (defaultsOf cfg)),
                       slotClassNameOf slotProps])))"
  proof (intro exI [of _ "createVariantSlots cnf cfg"] conjI allI ballI)
    show "createVariant cnf cfg = SlotsFn (createVariantSlots cnf cfg)"
      using sl by (simp add: createVariant_def)
  next
    fix propsArg
    show "map fst (createVariantSlots cnf cfg propsArg) = map fst sl"
      using sl by (simp add: createVariantSlots_def Let_def comp_def)
  next
    fix propsArg s assume "s \<in> set (map fst sl)"
    then obtain b where b: "map_of sl s = Some b"
      by (metis map_of_eq_None_iff not_Some_eq set_map)
    from slotResolver_in_record [OF sl b, of cnf propsArg] b
    show "\<exists>r b. map_of (createVariantSlots cnf cfg propsArg) s = Some r \<and> map_of sl s = Some b \<and>
           (\<forall>slotProps. r slotProps =
              cnf [Str b,
                   Str (resolveSlotsVariantClasses cnf s (propsOf propsArg)
                          (Some (variantsOf cfg)) (compoundsOf cfg) (defaultsOf cfg)),
                   slotClassNameOf slotProps])"
      by blast
  qed
qed

theorem createVariant_two_modes_witness:
  "slots buttonConfig = None
   \<and> createVariant cn buttonConfig = RegularFn (createVariantRegular cn buttonConfig)
   \<and> slots modalConfig = Some [(''root'', ''fixed inset-0''), (''panel'', ''bg-white rounded'')]
   \<and> (\<exists>F. createVariant cn modalConfig = SlotsFn F
        \<and> map fst (F (Some [(''size'', Str ''md'')])) = [''root'', ''panel''])"
proof -
  have h1: "slots buttonConfig = None" by (simp add: buttonConfig_def)
  have h2: "slots modalConfig = Some [(''root'', ''fixed inset-0''), (''panel'', ''bg-white rounded'')]"
    by (simp add: modalConfig_def)
  from createVariant_two_modes [of buttonConfig cn] h1
  have a: "createVariant cn buttonConfig = RegularFn (createVariantRegular cn buttonConfig)"
    by blast
  from createVariant_two_modes [of modalConfig cn] h2
  obtain F where "createVariant cn modalConfig = SlotsFn F"
    "\<forall>propsArg. map fst (F propsArg)
        = map fst [(''root'', ''fixed inset-0''), (''panel'', ''bg-white rounded'')]"
    by blast
  then have "\<exists>F. createVariant cn modalConfig = SlotsFn F
        \<and> map fst (F (Some [(''size'', Str ''md'')])) = [''root'', ''panel'']"
    by auto
  with h1 h2 a show ?thesis by blast
qed

text \<open>
  Claim C5. In slots mode every slot is resolved on its own: the resolver of a slot \<open>s\<close>
  with base classes \<open>b\<close>, given a per-slot \<^verbatim>\<open>className\<close>, returns the merge of \<open>b\<close>, the
  classes the shared props select for \<open>s\<close> through the variant axes and the matching
  compound variants, and that \<^verbatim>\<open>className\<close>. Nothing else enters: replacing the slots of
  the configuration by any others that keep the base classes of \<open>s\<close> leaves the resolver
  of \<open>s\<close> unchanged, and a resolver is a function of its own \<^verbatim>\<open>slotProps\<close> only.
\<close>

theorem slot_resolved_independently:
  assumes "slots cfg = Some sl" and "map_of sl s = Some b"
  shows "(\<exists>r. slotResolverOf cnf cfg propsArg s = Some r \<and>
            (\<forall>slotProps. r slotProps =
               cnf [Str b, Str (cnf (slotClasses s cfg propsArg)), slotClassNameOf slotProps]))
       \<and> (\<exists>r. slotResolverOf cn cfg propsArg s = Some r \<and>
            (\<forall>slotProps. r slotProps =
               cn (Str b # slotClasses s cfg propsArg @ [slotClassNameOf slotProps])))
       \<and> (\<forall>sl2. map_of sl2 s = Some b \<longrightarrow>
            slotResolverOf cnf (cfg\<lparr>slots := Some sl2\<rparr>) propsArg s
              = slotResolverOf cnf cfg propsArg s)"
proof -
  have res: "slotResolverOf j c propsArg s =
     Some (\<lambda>slotProps.
        j [Str b, Str (j (slotClasses s c propsArg)), slotClassNameOf slotProps])"
    if "slots c = Some sl'" "map_of sl' s = Some b" for j c sl'
    using that slotResolver_in_record [OF that, of j propsArg]
    by (simp add: slotResolverOf_def createVariant_def resolveSlotsVariantClasses_eq
        slotClasses_def)
  have cfg2: "slotClasses s (cfg\<lparr>slots := Some sl2\<rparr>) propsArg = slotClasses s cfg propsArg" for sl2
    by (simp add: slotClasses_def variantsOf_def compoundsOf_def defaultsOf_def)
  show ?thesis
    using res [OF assms] res [of "cfg\<lparr>slots := Some sl2\<rparr>" for sl2]
    by (simp add: cn_flat cfg2)
qed

theorem slot_resolved_independently_witness:
  "slots modalConfig = Some [(''root'', ''fixed inset-0''), (''panel'', ''bg-white rounded'')]
   \<and> map_of [(''root'', ''fixed inset-0''), (''panel'', ''bg-white rounded'')] ''panel''
       = Some ''bg-white rounded''
   \<and> (\<exists>r. slotResolverOf cn modalConfig (Some [(''size'', Str ''md'')]) ''panel'' = Some r
        \<and> r (Some [(''className'', Str ''custom'')]) = ''bg-white rounded max-w-md shadow custom'')"
proof -
  have h1: "slots modalConfig = Some [(''root'', ''fixed inset-0''), (''panel'', ''bg-white rounded'')]"
    by (simp add: modalConfig_def)
  have h2: "map_of [(''root'', ''fixed inset-0''), (''panel'', ''bg-white rounded'')] ''panel''
       = Some ''bg-white rounded''"
    by simp
  from slot_resolved_independently [OF h1 h2, of cn "Some [(''size'', Str ''md'')]"]
  obtain r where r: "slotResolverOf cn modalConfig (Some [(''size'', Str ''md'')]) ''panel'' = Some r"
    "\<forall>slotProps. r slotProps =
       cn (Str ''bg-white rounded'' # slotClasses ''panel'' modalConfig (Some [(''size'', Str ''md'')])
           @ [slotClassNameOf slotProps])"
    by blast
  have "r (Some [(''className'', Str ''custom'')]) = ''bg-white rounded max-w-md shadow custom''"
    unfolding r(2) [rule_format]
    by (simp add: modalConfig_def slotClasses_def slotClassNameOf_def propsOf_def
        variantsOf_def defaultsOf_def compoundsOf_def slotAxisClass_def slotCompoundClass_def
        slotCompoundClasses_def resolvedValue_def getProp_def classString_def
        matchesCompoundVariant_def coalesce_def cn_def tokens_def)
  with h1 h2 r(1) show ?thesis by blast
qed

section \<open>Compound variants fire when every listed condition holds\<close>

lemma matchesKeys_conditions:
  "matchesKeys props compound defaults keys
     = list_all (\<lambda>key. conditionHolds (resolvedValue props defaults key) (getProp compound key))
         (filter (\<lambda>key. key \<noteq> ''class'' \<and> getProp compound key \<noteq> Undefined) keys)"
proof (induction keys)
  case Nil
  show ?case by simp
next
  case (Cons key keys)
  show ?case
  proof (cases "getProp compound key")
    case (Bool b)
    with Cons show ?thesis
      by (cases b) (simp_all add: Let_def coalesce_resolved conditionHolds_def)
  qed (use Cons in \<open>simp_all add: Let_def coalesce_resolved conditionHolds_def\<close>)
qed

lemma matches_allConditionsHold:
  "matchesCompoundVariant props compound defaults = allConditionsHold props compound defaults"
  by (simp add: matchesCompoundVariant_def allConditionsHold_def listedConditions_def
      matchesKeys_conditions)

text \<open>
  Claim C3. The classes of a compound variant are appended to the output if and only if
  every axis condition the compound variant lists holds for the resolved value of its
  axis (the prop value, falling back to the default when the prop is absent); a compound
  variant with a listed condition that does not hold contributes nothing. This is so for
  one step of the loops over the compound variants and for the class strings
  \<open>resolveVariantClasses\<close> and \<open>resolveSlotsVariantClasses\<close> return.
\<close>

theorem compound_fires_iff_all_conditions_hold:
  "matchesCompoundVariant props compound defaults = allConditionsHold props compound defaults
   \<and> compoundStep props defaults compound classes =
       (if allConditionsHold props compound defaults
        then classes @ classString (getProp compound ''class'') else classes)
   \<and> slotCompoundStep slotName props defaults compound classes =
       (if allConditionsHold props compound defaults
        then classes @ slotCompoundClass slotName compound else classes)
   \<and> resolveVariantClasses cnf props vs cvs defaults =
       cnf (variantsLoop props vs defaults (map fst vs) []
            @ concat (map (\<lambda>c. classString (getProp c ''class''))
                (filter (\<lambda>c. allConditionsHold props c defaults) cvs)))
   \<and> resolveSlotsVariantClasses cnf slotName props sv cvs defaults =
       cnf ((case sv of None \<Rightarrow> []
             | Some v \<Rightarrow> slotVariantsLoop slotName props v defaults (map fst v) [])
            @ concat (map (slotCompoundClass slotName)
                (filter (\<lambda>c. allConditionsHold props c defaults) cvs)))"
  by (simp add: compoundStep_classString slotCompoundStep_slotCompoundClass
      resolveVariantClasses_def resolveSlotsVariantClasses_def
      compoundLoop_compoundClasses slotCompoundLoop_slotCompoundClasses compoundClasses_def
      slotCompoundClasses_def matches_allConditionsHold)

theorem compound_fires_iff_all_conditions_hold_witness:
  "allConditionsHold [(''size'', Str ''lg'')] largePrimary [(''variant'', Str ''primary'')]
   \<and> \<not> allConditionsHold [(''size'', Str ''lg'')] enabledOutline [(''variant'', Str ''primary'')]
   \<and> matchesCompoundVariant [(''size'', Str ''lg'')] largePrimary [(''variant'', Str ''primary'')]
   \<and> \<not> matchesCompoundVariant [(''size'', Str ''lg'')] enabledOutline [(''variant'', Str ''primary'')]
   \<and> resolveVariantClasses cn [(''size'', Str ''lg'')] [] [largePrimary, enabledOutline]
        [(''variant'', Str ''primary'')] = ''shadow-lg''"
proof -
  have a: "allConditionsHold [(''size'', Str ''lg'')] largePrimary [(''variant'', Str ''primary'')]"
    by (simp add: allConditionsHold_def listedConditions_def largePrimary_def conditionHolds_def
        resolvedValue_def getProp_def)
  have b: "\<not> allConditionsHold [(''size'', Str ''lg'')] enabledOutline [(''variant'', Str ''primary'')]"
    by (simp add: allConditionsHold_def listedConditions_def enabledOutline_def
        conditionHolds_def resolvedValue_def getProp_def)
  show ?thesis
    using a b
      compound_fires_iff_all_conditions_hold
        [of "[(''size'', Str ''lg'')]" largePrimary "[(''variant'', Str ''primary'')]" "[]"
            "''root''" cn "[]" "[largePrimary, enabledOutline]" None]
      compound_fires_iff_all_conditions_hold
        [of "[(''size'', Str ''lg'')]" enabledOutline "[(''variant'', Str ''primary'')]" "[]"
            "''root''" cn "[]" "[largePrimary, enabledOutline]" None]
    by (simp add: classString_def getProp_def largePrimary_def cn_def tokens_def)
qed

lemma getProp_Cons: "getProp ((k, v) # obj) key = (if key = k then v else getProp obj key)"
  by (simp add: getProp_def)

lemma matchesKeys_other_keys:
  "key \<notin> set keys \<Longrightarrow>
   matchesKeys props ((key, v) # rest) defaults keys = matchesKeys props rest defaults keys"
  by (induction keys) (auto simp: getProp_Cons Let_def)

lemma matches_Cons:
  assumes "key \<noteq> ''class''" and "key \<notin> fst ` set rest"
  shows "matchesCompoundVariant props ((key, v) # rest) defaults =
     ((v = Undefined \<or> conditionHolds (resolvedValue props defaults key) v)
      \<and> matchesCompoundVariant props rest defaults)"
proof -
  have "matchesKeys props ((key, v) # rest) defaults (map fst rest)
          = matchesKeys props rest defaults (map fst rest)"
    using assms(2) by (intro matchesKeys_other_keys) simp
  with assms(1) show ?thesis
    by (cases v; cases "resolvedValue props defaults key")
       (auto simp: matchesCompoundVariant_def getProp_Cons Let_def coalesce_resolved
          conditionHolds_def)
qed



section \<open>Props and defaults enter through the resolved values only\<close>

lemma axisClass_cong:
  assumes "\<forall>axis. resolvedValue props defaults axis = resolvedValue props' defaults' axis"
  shows "axisClass props defaults vs = axisClass props' defaults' vs"
    and "slotAxisClass slotName props defaults vs = slotAxisClass slotName props' defaults' vs"
  by (simp_all add: axisClass_def slotAxisClass_def fun_eq_iff assms [rule_format]
      split: option.split)

lemma matches_cong:
  assumes "\<forall>axis. resolvedValue props defaults axis = resolvedValue props' defaults' axis"
  shows "matchesCompoundVariant props compound defaults
           = matchesCompoundVariant props' compound defaults'"
  using assms by (simp add: matches_allConditionsHold allConditionsHold_def)

lemma resolvers_cong:
  assumes "\<forall>axis. resolvedValue props defaults axis = resolvedValue props' defaults' axis"
  shows "resolveVariantClasses cnf props vs cvs defaults
           = resolveVariantClasses cnf props' vs cvs defaults'"
    and "resolveSlotsVariantClasses cnf slotName props sv cvs defaults
           = resolveSlotsVariantClasses cnf slotName props' sv cvs defaults'"
proof -
  show "resolveVariantClasses cnf props vs cvs defaults
           = resolveVariantClasses cnf props' vs cvs defaults'"
    by (simp add: resolveVariantClasses_eq compoundClasses_def axisClass_cong(1) [OF assms]
        matches_cong [OF assms])
  show "resolveSlotsVariantClasses cnf slotName props sv cvs defaults
           = resolveSlotsVariantClasses cnf slotName props' sv cvs defaults'"
    by (cases sv)
       (simp_all add: resolveSlotsVariantClasses_def slotVariantsLoop_slotAxisClass
          slotCompoundLoop_slotCompoundClasses slotCompoundClasses_def
          axisClass_cong(2) [OF assms] matches_cong [OF assms])
qed

lemma resolved_ignore_default:
  "getProp props axis \<noteq> Undefined \<Longrightarrow> getProp props axis \<noteq> Null \<Longrightarrow>
   resolvedValue props ((axis, d) # defaults) k = resolvedValue props defaults k"
  by (auto simp: resolvedValue_def getProp_Cons)

lemma steps_for_resolved:
  assumes "map_of vs axis = Some variantDef"
  shows "variantStep props vs defaults axis cs
           = cs @ classForValue variantDef (resolvedValue props defaults axis)"
    and "slotVariantStep slotName props vs defaults axis cs
           = cs @ slotClassForValue slotName variantDef (resolvedValue props defaults axis)"
  using assms
  by (simp_all add: variantStep_axisClass slotVariantStep_slotAxisClass axisClass_def
      slotAxisClass_def classForValue_def slotClassForValue_def)

lemma resolvers_at_axis:
  assumes "map_of vs axis = Some variantDef" and "map fst vs = pre @ axis # post"
  shows "resolveVariantClasses cnf props vs cvs defaults
           = cnf (compoundLoop props defaults cvs
                    (variantsLoop props vs defaults post
                       (variantsLoop props vs defaults pre []
                        @ classForValue variantDef (resolvedValue props defaults axis))))"
    and "resolveSlotsVariantClasses cnf slotName props (Some vs) cvs defaults
           = cnf (slotCompoundLoop slotName props defaults cvs
                    (slotVariantsLoop slotName props vs defaults post
                       (slotVariantsLoop slotName props vs defaults pre []
                        @ slotClassForValue slotName variantDef
                            (resolvedValue props defaults axis))))"
  by (simp_all add: resolveVariantClasses_def resolveSlotsVariantClasses_def assms(2)
      variantsLoop_append slotVariantsLoop_append steps_for_resolved [OF assms(1)])

text \<open>
  Claim C4. When the props omit an axis, or supply \<^verbatim>\<open>undefined\<close> or \<^verbatim>\<open>null\<close> for it, the
  default declared for the axis resolves it. The step of the axis loop appends the class
  the definition of the axis configures for the default value, in regular mode and for
  every slot, so both resolvers return the merge with that class at the place of the axis;
  and a compound condition on the axis is tested against the default value. When the
  props supply any other value, that value takes the place of the default in all of
  these, and the default is ignored: declaring any default \<open>d\<close> for the axis changes
  neither resolver nor the test of any compound variant. The props are those the
  resolving functions receive.
\<close>

theorem default_resolves_absent_prop:
  assumes "map_of vs axis = Some variantDef"
    and "map fst vs = pre @ axis # post"
    and "axis \<noteq> ''class''"
    and "axis \<notin> fst ` set rest"
  shows "(getProp props axis = Undefined \<or> getProp props axis = Null \<longrightarrow>
            variantStep props vs defaults axis classes
              = classes @ classForValue variantDef (getProp defaults axis)
          \<and> slotVariantStep slotName props vs defaults axis classes
              = classes @ slotClassForValue slotName variantDef (getProp defaults axis)
          \<and> resolveVariantClasses cnf props vs cvs defaults
              = cnf (compoundLoop props defaults cvs
                       (variantsLoop props vs defaults post
                          (variantsLoop props vs defaults pre []
                           @ classForValue variantDef (getProp defaults axis))))
          \<and> resolveSlotsVariantClasses cnf slotName props (Some vs) cvs defaults
              = cnf (slotCompoundLoop slotName props defaults cvs
                       (slotVariantsLoop slotName props vs defaults post
                          (slotVariantsLoop slotName props vs defaults pre []
                           @ slotClassForValue slotName variantDef (getProp defaults axis))))
          \<and> matchesCompoundVariant props ((axis, cond) # rest) defaults
              = ((cond = Undefined \<or> conditionHolds (getProp defaults axis) cond)
                 \<and> matchesCompoundVariant props rest defaults))
       \<and> (getProp props axis \<noteq> Undefined \<and> getProp props axis \<noteq> Null \<longrightarrow>
            variantStep props vs defaults axis classes
              = classes @ classForValue variantDef (getProp props axis)
          \<and> slotVariantStep slotName props vs defaults axis classes
              = classes @ slotClassForValue slotName variantDef (getProp props axis)
          \<and> resolveVariantClasses cnf props vs cvs defaults
              = cnf (compoundLoop props defaults cvs
                       (variantsLoop props vs defaults post
                          (variantsLoop props vs defaults pre []
                           @ classForValue variantDef (getProp props axis))))
          \<and> resolveSlotsVariantClasses cnf slotName props (Some vs) cvs defaults
              = cnf (slotCompoundLoop slotName props defaults cvs
                       (slotVariantsLoop slotName props vs defaults post
                          (slotVariantsLoop slotName props vs defaults pre []
                           @ slotClassForValue slotName variantDef (getProp props axis))))
          \<and> matchesCompoundVariant props ((axis, cond) # rest) defaults
              = ((cond = Undefined \<or> conditionHolds (getProp props axis) cond)
                 \<and> matchesCompoundVariant props rest defaults)
          \<and> resolveVariantClasses cnf props vs cvs ((axis, d) # defaults)
              = resolveVariantClasses cnf props vs cvs defaults
          \<and> resolveSlotsVariantClasses cnf slotName props (Some vs) cvs ((axis, d) # defaults)
              = resolveSlotsVariantClasses cnf slotName props (Some vs) cvs defaults
          \<and> matchesCompoundVariant props compound ((axis, d) # defaults)
              = matchesCompoundVariant props compound defaults)"
proof (intro conjI impI)
  assume a: "getProp props axis = Undefined \<or> getProp props axis = Null"
  then have r: "resolvedValue props defaults axis = getProp defaults axis"
    by (auto simp: resolvedValue_def)
  show "variantStep props vs defaults axis classes
          = classes @ classForValue variantDef (getProp defaults axis)"
    using steps_for_resolved(1) [OF assms(1)] r by simp
  show "slotVariantStep slotName props vs defaults axis classes
          = classes @ slotClassForValue slotName variantDef (getProp defaults axis)"
    using steps_for_resolved(2) [OF assms(1)] r by simp
  show "resolveVariantClasses cnf props vs cvs defaults
          = cnf (compoundLoop props defaults cvs
                   (variantsLoop props vs defaults post
                      (variantsLoop props vs defaults pre []
                       @ classForValue variantDef (getProp defaults axis))))"
    using resolvers_at_axis(1) [OF assms(1,2)] r by simp
  show "resolveSlotsVariantClasses cnf slotName props (Some vs) cvs defaults
          = cnf (slotCompoundLoop slotName props defaults cvs
                   (slotVariantsLoop slotName props vs defaults post
                      (slotVariantsLoop slotName props vs defaults pre []
                       @ slotClassForValue slotName variantDef (getProp defaults axis))))"
    using resolvers_at_axis(2) [OF assms(1,2)] r by simp
  show "matchesCompoundVariant props ((axis, cond) # rest) defaults
          = ((cond = Undefined \<or> conditionHolds (getProp defaults axis) cond)
             \<and> matchesCompoundVariant props rest defaults)"
    using matches_Cons [OF assms(3,4)] r by simp
next
  assume a: "getProp props axis \<noteq> Undefined \<and> getProp props axis \<noteq> Null"
  then have r: "resolvedValue props defaults axis = getProp props axis"
    by (auto simp: resolvedValue_def)
  from a have i: "\<forall>k. resolvedValue props ((axis, d) # defaults) k
      = resolvedValue props defaults k"
    by (simp add: resolved_ignore_default)
  show "variantStep props vs defaults axis classes
          = classes @ classForValue variantDef (getProp props axis)"
    using steps_for_resolved(1) [OF assms(1)] r by simp
  show "slotVariantStep slotName props vs defaults axis classes
          = classes @ slotClassForValue slotName variantDef (getProp props axis)"
    using steps_for_resolved(2) [OF assms(1)] r by simp
  show "resolveVariantClasses cnf props vs cvs defaults
          = cnf (compoundLoop props defaults cvs
                   (variantsLoop props vs defaults post
                      (variantsLoop props vs defaults pre []
                       @ classForValue variantDef (getProp props axis))))"
    using resolvers_at_axis(1) [OF assms(1,2)] r by simp
  show "resolveSlotsVariantClasses cnf slotName props (Some vs) cvs defaults
          = cnf (slotCompoundLoop slotName props defaults cvs
                   (slotVariantsLoop slotName props vs defaults post
                      (slotVariantsLoop slotName props vs defaults pre []
                       @ slotClassForValue slotName variantDef (getProp props axis))))"
    using resolvers_at_axis(2) [OF assms(1,2)] r by simp
  show "matchesCompoundVariant props ((axis, cond) # rest) defaults
          = ((cond = Undefined \<or> conditionHolds (getProp props axis) cond)
             \<and> matchesCompoundVariant props rest defaults)"
    using matches_Cons [OF assms(3,4)] r by simp
  show "resolveVariantClasses cnf props vs cvs ((axis, d) # defaults)
          = resolveVariantClasses cnf props vs cvs defaults"
    by (rule resolvers_cong(1) [OF i])
  show "resolveSlotsVariantClasses cnf slotName props (Some vs) cvs ((axis, d) # defaults)
          = resolveSlotsVariantClasses cnf slotName props (Some vs) cvs defaults"
    by (rule resolvers_cong(2) [OF i])
  show "matchesCompoundVariant props compound ((axis, d) # defaults)
          = matchesCompoundVariant props compound defaults"
    by (rule matches_cong [OF i])
qed

theorem default_resolves_absent_prop_witness:
  "map_of sizeVariants ''size'' = Some [(''sm'', Str ''text-sm''), (''md'', Str ''text-md'')]
   \<and> map fst sizeVariants = [] @ ''size'' # []
   \<and> map_of sizeSlotsVariants ''size''
        = Some [(''sm'', Obj [(''panel'', Str ''max-w-sm'')]),
                (''md'', Obj [(''panel'', Str ''max-w-md'')])]
   \<and> map fst sizeSlotsVariants = [] @ ''size'' # []
   \<and> ''size'' \<noteq> ''class'' \<and> ''size'' \<notin> fst ` set [(''class'', Str ''shadow'')]
   \<and> getProp [] ''size'' = Undefined
   \<and> resolveVariantClasses cn [] sizeVariants [mediumShadow] [(''size'', Str ''md'')]
        = ''text-md shadow''
   \<and> resolveSlotsVariantClasses cn ''panel'' [] (Some sizeSlotsVariants) [mediumShadow]
        [(''size'', Str ''md'')] = ''max-w-md shadow''
   \<and> matchesCompoundVariant [] ((''size'', Str ''md'') # [(''class'', Str ''shadow'')])
        [(''size'', Str ''md'')]
   \<and> getProp [(''size'', Str ''sm'')] ''size'' \<noteq> Undefined
   \<and> getProp [(''size'', Str ''sm'')] ''size'' \<noteq> Null
   \<and> resolveVariantClasses cn [(''size'', Str ''sm'')] sizeVariants [mediumShadow]
        [(''size'', Str ''md'')] = ''text-sm''
   \<and> resolveSlotsVariantClasses cn ''panel'' [(''size'', Str ''sm'')] (Some sizeSlotsVariants)
        [mediumShadow] [(''size'', Str ''md'')] = ''max-w-sm''
   \<and> \<not> matchesCompoundVariant [(''size'', Str ''sm'')]
        ((''size'', Str ''md'') # [(''class'', Str ''shadow'')]) [(''size'', Str ''md'')]"
proof -
  let ?d = "[(''size'', Str ''md'')]"
  let ?p = "[(''size'', Str ''sm'')]"
  let ?rest = "[(''class'', Str ''shadow'')]"
  have v1: "map_of sizeVariants ''size'' = Some [(''sm'', Str ''text-sm''), (''md'', Str ''text-md'')]"
    by (simp add: sizeVariants_def)
  have k1: "map fst sizeVariants = [] @ ''size'' # []"
    by (simp add: sizeVariants_def)
  have v2: "map_of sizeSlotsVariants ''size''
        = Some [(''sm'', Obj [(''panel'', Str ''max-w-sm'')]),
                (''md'', Obj [(''panel'', Str ''max-w-md'')])]"
    by (simp add: sizeSlotsVariants_def)
  have k2: "map fst sizeSlotsVariants = [] @ ''size'' # []"
    by (simp add: sizeSlotsVariants_def)
  have c1: "''size'' \<noteq> ''class''" by simp
  have c2: "''size'' \<notin> fst ` set ?rest" by simp
  have a: "getProp [] ''size'' = Undefined" by (simp add: getProp_def)
  have b: "getProp ?p ''size'' \<noteq> Undefined \<and> getProp ?p ''size'' \<noteq> Null"
    by (simp add: getProp_def)
  have rest: "matchesCompoundVariant q ?rest ?d" for q
    by (simp add: matchesCompoundVariant_def)
  note reg = default_resolves_absent_prop [OF v1 k1 c1 c2]
  note slt = default_resolves_absent_prop [OF v2 k2 c1 c2]
  have m1: "matchesCompoundVariant [] ((''size'', Str ''md'') # ?rest) ?d"
    using reg [where props = "[]" and defaults = ?d and cond = "Str ''md''"] a
    by (simp add: rest conditionHolds_def getProp_def)
  have m2: "\<not> matchesCompoundVariant ?p ((''size'', Str ''md'') # ?rest) ?d"
    using reg [where props = ?p and defaults = ?d and cond = "Str ''md''"] b
    by (simp add: rest conditionHolds_def getProp_def)
  have r1: "resolveVariantClasses cn [] sizeVariants [mediumShadow] ?d = ''text-md shadow''"
    using reg [where props = "[]" and defaults = ?d and cnf = cn and cvs = "[mediumShadow]"] a m1
    by (simp add: classForValue_def classString_def compoundStep_def mediumShadow_def
        getProp_def cn_def tokens_def)
  have r2: "resolveVariantClasses cn ?p sizeVariants [mediumShadow] ?d = ''text-sm''"
    using reg [where props = ?p and defaults = ?d and cnf = cn and cvs = "[mediumShadow]"] b m2
    by (simp add: classForValue_def classString_def compoundStep_def mediumShadow_def
        getProp_def cn_def tokens_def)
  have s1: "resolveSlotsVariantClasses cn ''panel'' [] (Some sizeSlotsVariants) [mediumShadow] ?d
              = ''max-w-md shadow''"
    using slt [where props = "[]" and defaults = ?d and cnf = cn and cvs = "[mediumShadow]"
        and slotName = "''panel''"] a m1
    by (simp add: slotClassForValue_def classString_def slotCompoundStep_def mediumShadow_def
        getProp_def cn_def tokens_def)
  have s2: "resolveSlotsVariantClasses cn ''panel'' ?p (Some sizeSlotsVariants) [mediumShadow] ?d
              = ''max-w-sm''"
    using slt [where props = ?p and defaults = ?d and cnf = cn and cvs = "[mediumShadow]"
        and slotName = "''panel''"] b m2
    by (simp add: slotClassForValue_def classString_def slotCompoundStep_def mediumShadow_def
        getProp_def cn_def tokens_def)
  from v1 k1 v2 k2 c1 c2 a b m1 m2 r1 r2 s1 s2 show ?thesis by blast
qed

section \<open>One axis, one compound variant\<close>

lemma slotCompoundLoop_append:
  "slotCompoundLoop slotName props defaults (pre @ post) classes
     = slotCompoundLoop slotName props defaults post
         (slotCompoundLoop slotName props defaults pre classes)"
  by (induction pre arbitrary: classes) simp_all

text \<open>
  Claim C8. Let a boolean axis be set to \<^verbatim>\<open>false\<close> in the props. If the definition of the
  axis has no key \<^verbatim>\<open>false\<close> (it has the key \<^verbatim>\<open>true\<close> only), the axis is skipped: the
  resolver returns what the axes before it and the axes after it contribute. If the
  definition has the key \<^verbatim>\<open>false\<close>, exactly the classes mapped under it are contributed
  between the two: the class string in regular mode, the class string of the slot in
  slots mode. The axis may stand anywhere among the axes.
\<close>

theorem false_on_boolean_axis:
  assumes "getProp props axis = Bool False"
    and "map_of vs axis = Some variantDef"
    and "map fst vs = pre @ axis # post"
  shows "(\<not> hasKey variantDef ''false'' \<longrightarrow>
            resolveVariantClasses cnf props vs cvs defaults
              = cnf (compoundLoop props defaults cvs
                       (variantsLoop props vs defaults post
                          (variantsLoop props vs defaults pre [])))
          \<and> resolveSlotsVariantClasses cnf slotName props (Some vs) cvs defaults
              = cnf (slotCompoundLoop slotName props defaults cvs
                       (slotVariantsLoop slotName props vs defaults post
                          (slotVariantsLoop slotName props vs defaults pre []))))
       \<and> (hasKey variantDef ''false'' \<longrightarrow>
            resolveVariantClasses cnf props vs cvs defaults
              = cnf (compoundLoop props defaults cvs
                       (variantsLoop props vs defaults post
                          (variantsLoop props vs defaults pre []
                           @ classString (getProp variantDef ''false''))))
          \<and> resolveSlotsVariantClasses cnf slotName props (Some vs) cvs defaults
              = cnf (slotCompoundLoop slotName props defaults cvs
                       (slotVariantsLoop slotName props vs defaults post
                          (slotVariantsLoop slotName props vs defaults pre []
                           @ (case getProp variantDef ''false'' of
                                Obj perSlot \<Rightarrow> classString (getProp perSlot slotName)
                              | _ \<Rightarrow> [])))))"
proof -
  from assms(1) have r: "resolvedValue props defaults axis = Bool False"
    by (simp add: resolvedValue_def)
  have skip: "variantStep props vs defaults axis cs = cs"
             "slotVariantStep slotName props vs defaults axis cs = cs"
    if "\<not> hasKey variantDef ''false''" for cs
    using that assms(2) r
    by (simp_all add: variantStep_axisClass slotVariantStep_slotAxisClass axisClass_def
        slotAxisClass_def getProp_absent classString_def)
  have use: "variantStep props vs defaults axis cs = cs @ classString (getProp variantDef ''false'')"
            "slotVariantStep slotName props vs defaults axis cs
               = cs @ (case getProp variantDef ''false'' of
                         Obj perSlot \<Rightarrow> classString (getProp perSlot slotName)
                       | _ \<Rightarrow> [])" for cs
    using assms(2) r
    by (simp_all add: variantStep_axisClass slotVariantStep_slotAxisClass axisClass_def
        slotAxisClass_def)
  show ?thesis
  proof (cases "hasKey variantDef ''false''")
    case True
    then show ?thesis
      by (simp add: resolveVariantClasses_def resolveSlotsVariantClasses_def assms(3)
          variantsLoop_append slotVariantsLoop_append use)
  next
    case False
    then show ?thesis
      by (simp add: resolveVariantClasses_def resolveSlotsVariantClasses_def assms(3)
          variantsLoop_append slotVariantsLoop_append skip)
  qed
qed

theorem false_on_boolean_axis_witness:
  "getProp [(''disabled'', Bool False), (''selected'', Bool False)] ''disabled'' = Bool False
   \<and> getProp [(''disabled'', Bool False), (''selected'', Bool False)] ''selected'' = Bool False
   \<and> map_of tabVariants ''disabled'' = Some [(''true'', Str ''opacity-50'')]
   \<and> map_of tabVariants ''selected'' = Some [(''true'', Str ''bg-blue''), (''false'', Str ''bg-gray'')]
   \<and> map fst tabVariants = [] @ ''disabled'' # [''selected'']
   \<and> map fst tabVariants = [''disabled''] @ ''selected'' # []
   \<and> \<not> hasKey [(''true'', Str ''opacity-50'')] ''false''
   \<and> hasKey [(''true'', Str ''bg-blue''), (''false'', Str ''bg-gray'')] ''false''
   \<and> resolveVariantClasses cn [(''disabled'', Bool False), (''selected'', Bool False)]
        tabVariants [] [] = ''bg-gray''
   \<and> map_of tabSlotsVariants ''disabled'' = Some [(''true'', Obj [(''panel'', Str ''opacity-50'')])]
   \<and> map_of tabSlotsVariants ''selected''
        = Some [(''true'', Obj [(''panel'', Str ''bg-blue'')]),
                (''false'', Obj [(''panel'', Str ''bg-gray'')])]
   \<and> map fst tabSlotsVariants = [] @ ''disabled'' # [''selected'']
   \<and> map fst tabSlotsVariants = [''disabled''] @ ''selected'' # []
   \<and> resolveSlotsVariantClasses cn ''panel'' [(''disabled'', Bool False), (''selected'', Bool False)]
        (Some tabSlotsVariants) [] [] = ''bg-gray''"
proof -
  let ?p = "[(''disabled'', Bool False), (''selected'', Bool False)]"
  have h1: "getProp ?p ''disabled'' = Bool False" by (simp add: getProp_def)
  have h2: "map_of tabVariants ''disabled'' = Some [(''true'', Str ''opacity-50'')]"
    by (simp add: tabVariants_def)
  have h3: "getProp ?p ''selected'' = Bool False" by (simp add: getProp_def)
  have h4: "map_of tabVariants ''selected''
              = Some [(''true'', Str ''bg-blue''), (''false'', Str ''bg-gray'')]"
    by (simp add: tabVariants_def)
  have h5: "map_of tabSlotsVariants ''disabled''
              = Some [(''true'', Obj [(''panel'', Str ''opacity-50'')])]"
    by (simp add: tabSlotsVariants_def)
  have h6: "map_of tabSlotsVariants ''selected''
              = Some [(''true'', Obj [(''panel'', Str ''bg-blue'')]),
                      (''false'', Obj [(''panel'', Str ''bg-gray'')])]"
    by (simp add: tabSlotsVariants_def)
  have k1: "map fst tabVariants = [] @ ''disabled'' # [''selected'']"
    by (simp add: tabVariants_def)
  have k2: "map fst tabVariants = [''disabled''] @ ''selected'' # []"
    by (simp add: tabVariants_def)
  have k3: "map fst tabSlotsVariants = [] @ ''disabled'' # [''selected'']"
    by (simp add: tabSlotsVariants_def)
  have k4: "map fst tabSlotsVariants = [''disabled''] @ ''selected'' # []"
    by (simp add: tabSlotsVariants_def)
  have d: "variantStep ?p tabVariants [] ''disabled'' [] = []"
    by (simp add: variantStep_def tabVariants_def getProp_def coalesce_def hasKey_def)
  have ds: "slotVariantStep ''panel'' ?p tabSlotsVariants [] ''disabled'' [] = []"
    by (simp add: slotVariantStep_def tabSlotsVariants_def getProp_def coalesce_def hasKey_def)
  show ?thesis
    using h1 h2 h3 h4 h5 h6 k1 k2 k3 k4
      false_on_boolean_axis [OF h3 h4 k2, of cn "[]" "[]" "''panel''"]
      false_on_boolean_axis [OF h3 h6 k4, of cn "[]" "[]" "''panel''"]
    by (simp add: hasKey_def getProp_def classString_def d ds cn_def tokens_def)
qed

text \<open>
  Claim C10. In slots mode a matching compound variant whose \<^verbatim>\<open>class\<close> is a plain string
  has that string appended to the classes of every slot; one whose \<^verbatim>\<open>class\<close> is an object
  contributes to the slots named by the keys of that object only, with the class mapped
  under the slot's name. The compound variant may stand anywhere in the list; the classes
  are those \<open>resolveSlotsVariantClasses\<close> hands to the joiner.
\<close>

theorem compound_class_string_or_object:
  assumes "matchesCompoundVariant props compound defaults"
  shows "(getProp compound ''class'' = Str s \<longrightarrow>
            (\<forall>slotName.
               resolveSlotsVariantClasses cnf slotName props sv (pre @ compound # post) defaults
                 = cnf (slotCompoundLoop slotName props defaults post
                     (slotCompoundLoop slotName props defaults pre
                        (case sv of None \<Rightarrow> []
                         | Some v \<Rightarrow> slotVariantsLoop slotName props v defaults (map fst v) [])
                      @ (if s = [] then [] else [Str s])))))
       \<and> (getProp compound ''class'' = Obj perSlot \<longrightarrow>
            (\<forall>slotName.
               resolveSlotsVariantClasses cnf slotName props sv (pre @ compound # post) defaults
                 = cnf (slotCompoundLoop slotName props defaults post
                     (slotCompoundLoop slotName props defaults pre
                        (case sv of None \<Rightarrow> []
                         | Some v \<Rightarrow> slotVariantsLoop slotName props v defaults (map fst v) [])
                      @ (if hasKey perSlot slotName \<and> truthy (getProp perSlot slotName)
                         then [getProp perSlot slotName] else [])))))"
proof (intro conjI impI allI)
  fix slotName
  assume "getProp compound ''class'' = Str s"
  with assms have "slotCompoundStep slotName props defaults compound cs
      = cs @ (if s = [] then [] else [Str s])" for cs
    by (simp add: slotCompoundStep_def)
  then show "resolveSlotsVariantClasses cnf slotName props sv (pre @ compound # post) defaults
      = cnf (slotCompoundLoop slotName props defaults post
          (slotCompoundLoop slotName props defaults pre
             (case sv of None \<Rightarrow> []
              | Some v \<Rightarrow> slotVariantsLoop slotName props v defaults (map fst v) [])
           @ (if s = [] then [] else [Str s])))"
    by (simp add: resolveSlotsVariantClasses_def slotCompoundLoop_append)
next
  fix slotName
  assume "getProp compound ''class'' = Obj perSlot"
  with assms have "slotCompoundStep slotName props defaults compound cs
      = cs @ (if hasKey perSlot slotName \<and> truthy (getProp perSlot slotName)
              then [getProp perSlot slotName] else [])" for cs
    by (cases "hasKey perSlot slotName")
       (simp_all add: slotCompoundStep_def getProp_absent)
  then show "resolveSlotsVariantClasses cnf slotName props sv (pre @ compound # post) defaults
      = cnf (slotCompoundLoop slotName props defaults post
          (slotCompoundLoop slotName props defaults pre
             (case sv of None \<Rightarrow> []
              | Some v \<Rightarrow> slotVariantsLoop slotName props v defaults (map fst v) [])
           @ (if hasKey perSlot slotName \<and> truthy (getProp perSlot slotName)
              then [getProp perSlot slotName] else [])))"
    by (simp add: resolveSlotsVariantClasses_def slotCompoundLoop_append)
qed

theorem compound_class_string_or_object_witness:
  "matchesCompoundVariant [(''size'', Str ''md'')] [(''size'', Str ''md''), (''class'', Str ''shadow'')] []
   \<and> getProp [(''size'', Str ''md''), (''class'', Str ''shadow'')] ''class'' = Str ''shadow''
   \<and> resolveSlotsVariantClasses cn ''root'' [(''size'', Str ''md'')] None
        ([] @ [(''size'', Str ''md''), (''class'', Str ''shadow'')] # []) [] = ''shadow''
   \<and> resolveSlotsVariantClasses cn ''panel'' [(''size'', Str ''md'')] None
        ([] @ [(''size'', Str ''md''), (''class'', Str ''shadow'')] # []) [] = ''shadow''
   \<and> matchesCompoundVariant [(''size'', Str ''md'')]
        [(''size'', Str ''md''), (''class'', Obj [(''root'', Str ''p-4'')])] []
   \<and> getProp [(''size'', Str ''md''), (''class'', Obj [(''root'', Str ''p-4'')])] ''class''
        = Obj [(''root'', Str ''p-4'')]
   \<and> resolveSlotsVariantClasses cn ''root'' [(''size'', Str ''md'')] None
        ([] @ [(''size'', Str ''md''), (''class'', Obj [(''root'', Str ''p-4'')])] # []) []
        = ''p-4''
   \<and> resolveSlotsVariantClasses cn ''panel'' [(''size'', Str ''md'')] None
        ([] @ [(''size'', Str ''md''), (''class'', Obj [(''root'', Str ''p-4'')])] # []) [] = ''''"
proof -
  let ?p = "[(''size'', Str ''md'')]"
  let ?c1 = "[(''size'', Str ''md''), (''class'', Str ''shadow'')]"
  let ?c2 = "[(''size'', Str ''md''), (''class'', Obj [(''root'', Str ''p-4'')])]"
  have m1: "matchesCompoundVariant ?p ?c1 []"
    by (simp add: matchesCompoundVariant_def getProp_def coalesce_def)
  have m2: "matchesCompoundVariant ?p ?c2 []"
    by (simp add: matchesCompoundVariant_def getProp_def coalesce_def)
  have g1: "getProp ?c1 ''class'' = Str ''shadow''" by (simp add: getProp_def)
  have g2: "getProp ?c2 ''class'' = Obj [(''root'', Str ''p-4'')]" by (simp add: getProp_def)
  show ?thesis
    using m1 m2 g1 g2
      compound_class_string_or_object [OF m1, of "''shadow''" cn None "[]" "[]" "[]"]
      compound_class_string_or_object [OF m2, of "''shadow''" cn None "[]" "[]"
        "[(''root'', Str ''p-4'')]"]
    by (simp add: hasKey_def getProp_def cn_def tokens_def)
qed

section \<open>The resolver is a function of the configuration and the props\<close>

lemma getProp_map_of: "map_of p = map_of q \<Longrightarrow> getProp p k = getProp q k"
  by (simp add: getProp_def)

lemma map_of_without_key:
  "map_of (filter (\<lambda>kv. fst kv \<noteq> c) p) = (map_of p)(c := None)"
  by (induction p) (auto simp: fun_eq_iff)

lemma createVariantSlots_lookup:
  "map_of (createVariantSlots cnf cfg propsArg) s =
     (if s \<in> set (map fst (case slots cfg of None \<Rightarrow> [] | Some sl \<Rightarrow> sl))
      then Some (\<lambda>slotProps.
        cnf [case map_of (case slots cfg of None \<Rightarrow> [] | Some sl \<Rightarrow> sl) s of
               None \<Rightarrow> Undefined | Some b \<Rightarrow> Str b,
             Str (resolveSlotsVariantClasses cnf s (propsOf propsArg) (Some (variantsOf cfg))
                    (compoundsOf cfg) (defaultsOf cfg)),
             slotClassNameOf slotProps])
      else None)"
  unfolding createVariantSlots_def Let_def map_of_keyed
  by (simp add: propsOf_def variantsOf_def compoundsOf_def defaultsOf_def slotClassNameOf_def)

text \<open>
  Claim C6. The resolver is deterministic: the function returned by \<open>createVariant\<close> for a
  configuration, applied twice to a props object, produces identical class strings, and
  in slots mode so does the resolver of any slot applied twice with the same
  \<^verbatim>\<open>className\<close>. The embedding has no state besides its arguments, as the source has none:
  each call allocates its own \<^verbatim>\<open>classes\<close> array and the closures capture the configuration
  and the props only. The theorem states more than equal arguments giving equal results:
  the two props objects need only hold the same properties, in whatever order.
\<close>

theorem resolver_is_deterministic:
  assumes "map_of (propsOf props1) = map_of (propsOf props2)"
  shows "(\<forall>f. createVariant cnf cfg = RegularFn f \<longrightarrow> f props1 = f props2)
       \<and> (\<forall>F s r1 r2. createVariant cnf cfg = SlotsFn F \<longrightarrow>
            map_of (F props1) s = Some r1 \<longrightarrow> map_of (F props2) s = Some r2 \<longrightarrow>
            slotClassNameOf slotProps1 = slotClassNameOf slotProps2 \<longrightarrow>
            r1 slotProps1 = r2 slotProps2)"
proof (intro conjI allI impI)
  fix f assume f: "createVariant cnf cfg = RegularFn f"
  have vp: "map_of (variantPropsOf props1) = map_of (variantPropsOf props2)"
    by (simp add: variantPropsOf_def map_of_without_key assms)
  have "\<forall>axis. resolvedValue (variantPropsOf props1) (defaultsOf cfg) axis
          = resolvedValue (variantPropsOf props2) (defaultsOf cfg) axis"
    by (simp add: resolvedValue_def getProp_map_of [OF vp])
  then have "resolveVariantClasses cnf (variantPropsOf props1) (variantsOf cfg) (compoundsOf cfg)
               (defaultsOf cfg)
           = resolveVariantClasses cnf (variantPropsOf props2) (variantsOf cfg) (compoundsOf cfg)
               (defaultsOf cfg)"
    by (rule resolvers_cong(1))
  then have "createVariantRegular cnf cfg props1 = createVariantRegular cnf cfg props2"
    by (simp add: createVariantRegular_eq regularClasses_def resolveVariantClasses_eq
        classNameOf_def getProp_map_of [OF assms])
  with f show "f props1 = f props2"
    by (auto simp: createVariant_def split: if_splits)
next
  fix F s r1 r2
  assume F: "createVariant cnf cfg = SlotsFn F"
    and r1: "map_of (F props1) s = Some r1" and r2: "map_of (F props2) s = Some r2"
    and cls: "slotClassNameOf slotProps1 = slotClassNameOf slotProps2"
  from F have F': "F = createVariantSlots cnf cfg"
    by (auto simp: createVariant_def split: if_splits)
  have "\<forall>axis. resolvedValue (propsOf props1) (defaultsOf cfg) axis
          = resolvedValue (propsOf props2) (defaultsOf cfg) axis"
    by (simp add: resolvedValue_def getProp_map_of [OF assms])
  then have "resolveSlotsVariantClasses cnf s (propsOf props1) (Some (variantsOf cfg))
               (compoundsOf cfg) (defaultsOf cfg)
           = resolveSlotsVariantClasses cnf s (propsOf props2) (Some (variantsOf cfg))
               (compoundsOf cfg) (defaultsOf cfg)"
    by (rule resolvers_cong(2))
  with r1 r2 cls show "r1 slotProps1 = r2 slotProps2"
    unfolding F' createVariantSlots_lookup by (auto split: if_splits)
qed

theorem resolver_is_deterministic_witness:
  "map_of (propsOf (Some [(''size'', Str ''lg''), (''variant'', Str ''secondary'')]))
     = map_of (propsOf (Some [(''variant'', Str ''secondary''), (''size'', Str ''lg'')]))
   \<and> createVariant cn buttonConfig = RegularFn (createVariantRegular cn buttonConfig)
   \<and> createVariantRegular cn buttonConfig (Some [(''size'', Str ''lg''), (''variant'', Str ''secondary'')])
       = createVariantRegular cn buttonConfig (Some [(''variant'', Str ''secondary''), (''size'', Str ''lg'')])"
proof -
  have h: "map_of (propsOf (Some [(''size'', Str ''lg''), (''variant'', Str ''secondary'')]))
     = map_of (propsOf (Some [(''variant'', Str ''secondary''), (''size'', Str ''lg'')]))"
    by (auto simp: propsOf_def fun_eq_iff)
  have c: "createVariant cn buttonConfig = RegularFn (createVariantRegular cn buttonConfig)"
    by (simp add: createVariant_def buttonConfig_def)
  from resolver_is_deterministic [OF h, of cn buttonConfig] c h show ?thesis
    by blast
qed

end
